theory Spec2Isabelle
  imports Main "HOL-Library.AList"
begin

unbundle bit_operations_syntax

section \<open>Python values used by \<^verbatim>\<open>feature_flags.py\<close>\<close>

text \<open>
  A Python \<^verbatim>\<open>str\<close> is the list of its code points, each an integer, so
  \<^term>\<open>length\<close> counts code points as Python's \<^verbatim>\<open>len\<close> does. A \<^verbatim>\<open>str\<close> may hold the
  surrogate code points U+D800 to U+DFFF (a lone surrogate), which UTF-8 cannot encode.
  \<open>py\<close> turns a literal of this theory, whose characters stand for the code points
  U+0000 to U+00FF, into such a list. Bytes and Python's unbounded integers are
  \<^typ>\<open>int\<close>. An exception is a value of \<open>py_error\<close>; a method that can raise and changes
  the manager returns the pair of its outcome and the manager it leaves.
\<close>

datatype py_error = KeyError | ValueError | UnicodeEncodeError

type_synonym py_str = "int list"

definition py :: "string \<Rightarrow> py_str" where
  "py s = map of_char s"

text \<open>Truth value of \<^verbatim>\<open>user_id\<close> in a condition: \<^verbatim>\<open>None\<close> and \<^verbatim>\<open>""\<close> are false.\<close>

fun truthy :: "py_str option \<Rightarrow> bool" where
  "truthy None = False"
| "truthy (Some s) = (s \<noteq> [])"

text \<open>\<^verbatim>\<open>str(n)\<close> for an integer, as the f-string of the audit reason formats it.\<close>

fun str_nat :: "nat \<Rightarrow> string" where
  "str_nat n = (if n < 10 then [char_of (48 + n)] else str_nat (n div 10) @ [char_of (48 + n mod 10)])"

declare str_nat.simps [simp del]

definition str_int :: "int \<Rightarrow> string" where
  "str_int i = (if i < 0 then CHR ''-'' # str_nat (nat (- i)) else str_nat (nat i))"

text \<open>
  \<^verbatim>\<open>str.encode()\<close>: UTF-8, of one to four bytes for a code point. A surrogate has no
  encoding and the call raises \<^verbatim>\<open>UnicodeEncodeError\<close>; an integer that is no code point
  (negative, or from \<open>0x110000\<close> on) occurs in no \<^verbatim>\<open>str\<close> and is refused likewise.
\<close>

definition encodable :: "py_str \<Rightarrow> bool" where
  "encodable s = list_all (\<lambda>n. (0 \<le> n \<and> n < 0xD800) \<or> (0xDFFF < n \<and> n < 0x110000)) s"

definition utf8 :: "int \<Rightarrow> int list" where
  "utf8 n =
     (if n < 0x80 then [n]
      else if n < 0x800 then [192 + n div 64, 128 + n mod 64]
      else if n < 0x10000 then [224 + n div 4096, 128 + n div 64 mod 64, 128 + n mod 64]
      else [240 + n div 262144, 128 + n div 4096 mod 64, 128 + n div 64 mod 64, 128 + n mod 64])"

definition encode :: "py_str \<Rightarrow> py_error + int list" where
  "encode s = (if encodable s then Inr (concat (map utf8 s)) else Inl UnicodeEncodeError)"

text \<open>\<^verbatim>\<open>int.from_bytes(bs, byteorder='big')\<close>.\<close>

definition from_bytes_big :: "int list \<Rightarrow> int" where
  "from_bytes_big bs = foldl (\<lambda>acc b. acc * 256 + b) 0 bs"

subsection \<open>\<^verbatim>\<open>hashlib.md5\<close>\<close>

text \<open>
  The digest of RFC 1321 on 32-bit words kept as integers below \<open>2 ^ 32\<close>, each addition
  reduced by \<open>u32\<close>. \<open>md5\<close> is \<^verbatim>\<open>hashlib.md5(data).digest()\<close>: sixteen bytes.
\<close>

definition md5_s :: "nat list" where
  "md5_s = [7, 12, 17, 22, 7, 12, 17, 22, 7, 12, 17, 22, 7, 12, 17, 22,
            5, 9, 14, 20, 5, 9, 14, 20, 5, 9, 14, 20, 5, 9, 14, 20,
            4, 11, 16, 23, 4, 11, 16, 23, 4, 11, 16, 23, 4, 11, 16, 23,
            6, 10, 15, 21, 6, 10, 15, 21, 6, 10, 15, 21, 6, 10, 15, 21]"

definition md5_K :: "int list" where
  "md5_K = [0xd76aa478, 0xe8c7b756, 0x242070db, 0xc1bdceee, 0xf57c0faf, 0x4787c62a, 0xa8304613, 0xfd469501,
            0x698098d8, 0x8b44f7af, 0xffff5bb1, 0x895cd7be, 0x6b901122, 0xfd987193, 0xa679438e, 0x49b40821,
            0xf61e2562, 0xc040b340, 0x265e5a51, 0xe9b6c7aa, 0xd62f105d, 0x02441453, 0xd8a1e681, 0xe7d3fbc8,
            0x21e1cde6, 0xc33707d6, 0xf4d50d87, 0x455a14ed, 0xa9e3e905, 0xfcefa3f8, 0x676f02d9, 0x8d2a4c8a,
            0xfffa3942, 0x8771f681, 0x6d9d6122, 0xfde5380c, 0xa4beea44, 0x4bdecfa9, 0xf6bb4b60, 0xbebfbc70,
            0x289b7ec6, 0xeaa127fa, 0xd4ef3085, 0x04881d05, 0xd9d4d039, 0xe6db99e5, 0x1fa27cf8, 0xc4ac5665,
            0xf4292244, 0x432aff97, 0xab9423a7, 0xfc93a039, 0x655b59c3, 0x8f0ccc92, 0xffeff47d, 0x85845dd1,
            0x6fa87e4f, 0xfe2ce6e0, 0xa3014314, 0x4e0811a1, 0xf7537e82, 0xbd3af235, 0x2ad7d2bb, 0xeb86d391]"

definition u32 :: "int \<Rightarrow> int" where
  "u32 x = x mod 4294967296"

definition not32 :: "int \<Rightarrow> int" where
  "not32 x = 4294967295 - x"

definition rotl32 :: "int \<Rightarrow> nat \<Rightarrow> int" where
  "rotl32 x n = u32 (x * 2 ^ n) + x div 2 ^ (32 - n)"

definition md5_round :: "int list \<Rightarrow> int \<times> int \<times> int \<times> int \<Rightarrow> nat \<Rightarrow> int \<times> int \<times> int \<times> int" where
  "md5_round M st i =
     (case st of (A, B, C, D) \<Rightarrow>
        let (F, g) =
              (if i < 16 then ((B AND C) OR (not32 B AND D), i)
               else if i < 32 then ((D AND B) OR (not32 D AND C), (5 * i + 1) mod 16)
               else if i < 48 then (B XOR C XOR D, (3 * i + 5) mod 16)
               else (C XOR (B OR not32 D), (7 * i) mod 16));
            F' = u32 (F + A + md5_K ! i + M ! g)
        in (D, u32 (B + rotl32 F' (md5_s ! i)), B, C))"


definition md5_pad :: "int list \<Rightarrow> int list" where
  "md5_pad msg =
     msg @ [128] @ replicate ((119 - length msg mod 64) mod 64) 0
         @ map (\<lambda>i. (8 * int (length msg)) div 256 ^ i mod 256) [0..<8]"

fun md5_words :: "int list \<Rightarrow> int list" where
  "md5_words (b0 # b1 # b2 # b3 # bs) = (b0 + 256 * b1 + 65536 * b2 + 16777216 * b3) # md5_words bs"
| "md5_words _ = []"

definition md5_block :: "int \<times> int \<times> int \<times> int \<Rightarrow> int list \<Rightarrow> int \<times> int \<times> int \<times> int" where
  "md5_block h M =
     (case h of (a0, b0, c0, d0) \<Rightarrow>
        case foldl (md5_round M) h [0..<64] of (A, B, C, D) \<Rightarrow>
          (u32 (a0 + A), u32 (b0 + B), u32 (c0 + C), u32 (d0 + D)))"

primrec md5_blocks :: "nat \<Rightarrow> int \<times> int \<times> int \<times> int \<Rightarrow> int list \<Rightarrow> int \<times> int \<times> int \<times> int" where
  "md5_blocks 0 h ws = h"
| "md5_blocks (Suc n) h ws = md5_blocks n (md5_block h (take 16 ws)) (drop 16 ws)"

definition le_bytes :: "int \<Rightarrow> int list" where
  "le_bytes w = map (\<lambda>i. w div 256 ^ i mod 256) [0..<4]"

definition md5 :: "int list \<Rightarrow> int list" where
  "md5 msg =
     (let ws = md5_words (md5_pad msg) in
      case md5_blocks (length ws div 16) (0x67452301, 0xefcdab89, 0x98badcfe, 0x10325476) ws of
        (a, b, c, d) \<Rightarrow> le_bytes a @ le_bytes b @ le_bytes c @ le_bytes d)"


section \<open>The data model\<close>

text \<open>The dataclass \<^verbatim>\<open>FlagConfig\<close>, with the lists that \<^verbatim>\<open>__post_init__\<close> puts in place of \<^verbatim>\<open>None\<close>.\<close>

record FlagConfig =
  name :: py_str
  enabled :: bool
  rollout_percentage :: int
  target_users :: "py_str list"
  target_segments :: "py_str list"
  variant :: "py_str option"
  description :: py_str

text \<open>One dictionary of the audit log; the fields are its keys.\<close>

record audit_entry =
  a_timestamp :: py_str
  a_flag :: py_str
  a_user_id :: py_str
  a_result :: bool
  a_reason :: py_str

text \<open>
  The manager: \<^verbatim>\<open>self.flags\<close> is a dictionary, kept as an association list in insertion
  order, and \<^verbatim>\<open>self.audit_log\<close> a list, oldest entry first.
\<close>

record FeatureFlagManager =
  flags :: "(py_str \<times> FlagConfig) list"
  audit_log :: "audit_entry list"

text \<open>The constructor call \<^verbatim>\<open>FlagConfig(name=..., enabled=..., rollout_percentage=..., variant=..., description=...)\<close>.\<close>

definition mk_flag :: "py_str \<Rightarrow> bool \<Rightarrow> int \<Rightarrow> py_str option \<Rightarrow> py_str \<Rightarrow> FlagConfig" where
  "mk_flag n e p v d =
     \<lparr>name = n, enabled = e, rollout_percentage = p, target_users = [], target_segments = [],
      variant = v, description = d\<rparr>"

section \<open>The operations of \<^verbatim>\<open>FeatureFlagManager\<close>\<close>

definition load_defaults :: "FeatureFlagManager \<Rightarrow> FeatureFlagManager" where
  "load_defaults self = self\<lparr>flags :=
     foldl (\<lambda>fs fc. AList.update (name fc) fc fs) (flags self)
      [mk_flag (py ''aggressive_capture'') False 0 None
         (py ''Ask for contact info after first listing detail request (vs waiting for explicit interest)''),
       mk_flag (py ''require_both_contacts'') False 0 None
         (py ''Require BOTH email AND phone (vs current email OR phone logic)''),
       mk_flag (py ''collect_budget_upfront'') False 0 None
         (py ''Ask about budget/timeline before showing listings''),
       mk_flag (py ''show_risks_upfront'') True 100 None
         (py ''Include risk analysis in listing details''),
       mk_flag (py ''show_comparables'') True 100 None
         (py ''Show comparable sales data in listing details''),
       mk_flag (py ''early_advisor_intro'') False 0 None
         (py ''Offer advisor connection in Concierge agent (vs only in Booking agent)''),
       mk_flag (py ''auto_handoff_after_details'') True 100 None
         (py ''Automatically hand off to Booking agent after showing listing details''),
       mk_flag (py ''skip_concierge_returning'') False 0 None
         (py ''Skip Concierge for users who have previously viewed listings''),
       mk_flag (py ''enable_vector_search'') True 100 None
         (py ''Use semantic vector search (vs keyword fallback only)''),
       mk_flag (py ''show_under_contract'') True 100 None
         (py ''Include under-contract listings in search results (for social proof)''),
       mk_flag (py ''agent_tone'') True 100 (Some (py ''professional''))
         (py ''Agent personality variant for A/B testing'')]\<rparr>"

text \<open>\<^verbatim>\<open>_hash_user\<close>: the first four digest bytes, big-endian, modulo 100.\<close>

definition hash_user :: "py_str \<Rightarrow> py_str \<Rightarrow> py_error + int" where
  "hash_user flag_name uid =
     (let combined = flag_name @ py '':'' @ uid
      in case encode combined of
           Inl e \<Rightarrow> Inl e
         | Inr data \<Rightarrow>
             (let hash_bytes = md5 data;
                  hash_int = from_bytes_big (take 4 hash_bytes)
              in Inr (hash_int mod 100)))"

text \<open>
  \<^verbatim>\<open>_log_evaluation\<close>. The clock reading \<^verbatim>\<open>datetime.utcnow().isoformat()\<close> is the
  argument \<open>now\<close>. \<^verbatim>\<open>xs[-1000:]\<close> is the last 1000 elements.
\<close>

definition log_evaluation ::
  "py_str \<Rightarrow> FeatureFlagManager \<Rightarrow> py_str \<Rightarrow> py_str \<Rightarrow> bool \<Rightarrow> py_str \<Rightarrow> FeatureFlagManager" where
  "log_evaluation now self flag_name uid res rsn =
     (let appended = audit_log self @
            [\<lparr>a_timestamp = now, a_flag = flag_name, a_user_id = uid, a_result = res, a_reason = rsn\<rparr>]
      in self\<lparr>audit_log :=
           (if length appended > 1000 then drop (length appended - 1000) appended else appended)\<rparr>)"

definition export_audit_log :: "FeatureFlagManager \<Rightarrow> audit_entry list" where
  "export_audit_log self = audit_log self"

text \<open>
  \<^verbatim>\<open>is_enabled\<close> returns its outcome, the boolean or the exception raised, and the manager
  after the call. \<open>now\<close> is the clock reading and \<open>draw\<close> the value of
  \<^verbatim>\<open>random.randint(0, 99)\<close>, both used only on the paths that read them. \<open>ctx\<close> is the
  \<^verbatim>\<open>context\<close> argument, which the body never reads. \<open>rollout_phase\<close> is the part of the
  body from the comment "Percentage-based rollout" on; an exception of \<^verbatim>\<open>_hash_user\<close>
  leaves it before \<^verbatim>\<open>_log_evaluation\<close> is called.
\<close>

definition rollout_phase ::
  "py_str \<Rightarrow> int \<Rightarrow> FeatureFlagManager \<Rightarrow> py_str \<Rightarrow> FlagConfig \<Rightarrow> py_str option
     \<Rightarrow> (py_error + bool) \<times> FeatureFlagManager" where
  "rollout_phase now draw self flag_name flag uid =
     (if rollout_percentage flag = 100 then (Inr True, self)
      else if rollout_percentage flag = 0 then (Inr False, self)
      else (case uid of
              Some u \<Rightarrow>
                if u \<noteq> [] then
                  (case hash_user flag_name u of
                     Inl e \<Rightarrow> (Inl e, self)
                   | Inr user_hash \<Rightarrow>
                       (let en = user_hash < rollout_percentage flag
                        in (Inr en, log_evaluation now self flag_name u en
                                      (py ''rollout_'' @ py (str_int (rollout_percentage flag)) @ py ''%''))))
                else (Inr (draw < rollout_percentage flag), self)
            | None \<Rightarrow> (Inr (draw < rollout_percentage flag), self)))"

definition is_enabled ::
  "py_str \<Rightarrow> int \<Rightarrow> FeatureFlagManager \<Rightarrow> py_str \<Rightarrow> py_str option \<Rightarrow> (py_str \<times> py_str) list option
     \<Rightarrow> (py_error + bool) \<times> FeatureFlagManager" where
  "is_enabled now draw self flag_name uid ctx =
     (case map_of (flags self) flag_name of
        None \<Rightarrow> (Inr False, self)
      | Some flag \<Rightarrow>
          if \<not> enabled flag then (Inr False, self)
          else (case uid of
                  Some u \<Rightarrow>
                    if truthy uid \<and> u \<in> set (target_users flag)
                    then (Inr True, log_evaluation now self flag_name u True (py ''targeted_user''))
                    else rollout_phase now draw self flag_name flag uid
                | None \<Rightarrow> rollout_phase now draw self flag_name flag uid))"


text \<open>\<^verbatim>\<open>update_flag\<close>; an argument left at \<^verbatim>\<open>None\<close> keeps the field.\<close>

definition update_flag ::
  "FeatureFlagManager \<Rightarrow> py_str \<Rightarrow> bool option \<Rightarrow> int option \<Rightarrow> py_str list option \<Rightarrow> FeatureFlagManager" where
  "update_flag self flag_name en pct users =
     (case map_of (flags self) flag_name of
        None \<Rightarrow> self
      | Some flag \<Rightarrow>
          (let flag1 = (case en of None \<Rightarrow> flag | Some e \<Rightarrow> flag\<lparr>enabled := e\<rparr>);
               flag2 = (case pct of None \<Rightarrow> flag1
                        | Some p \<Rightarrow> flag1\<lparr>rollout_percentage := max 0 (min 100 p)\<rparr>);
               flag3 = (case users of None \<Rightarrow> flag2 | Some us \<Rightarrow> flag2\<lparr>target_users := us\<rparr>)
           in self\<lparr>flags := AList.update flag_name flag3 (flags self)\<rparr>))"

subsection \<open>Loading from the environment\<close>

text \<open>
  The names and values of \<^verbatim>\<open>os.environ\<close> are taken over the code points U+0000 to
  U+00FF, as values of \<^typ>\<open>string\<close>; names and values with a code point from U+0100
  on are outside the model. The string methods are \<^verbatim>\<open>str.isspace\<close>, \<^verbatim>\<open>str.lower\<close> and
  \<^verbatim>\<open>str.isdigit\<close> as Python defines them below U+0100. \<^verbatim>\<open>isdigit\<close> holds for the ASCII
  digits and for the superscript digits U+00B2, U+00B3 and U+00B9; \<^verbatim>\<open>int\<close> accepts
  only the former and raises \<^verbatim>\<open>ValueError\<close> otherwise.
\<close>

definition is_space :: "char \<Rightarrow> bool" where
  "is_space c = (of_char c \<in> set [9, 10, 11, 12, 13, 28, 29, 30, 31, 32, 133, 160 :: nat])"

definition str_strip :: "string \<Rightarrow> string" where
  "str_strip s = rev (dropWhile is_space (rev (dropWhile is_space s)))"

definition lower_char :: "char \<Rightarrow> char" where
  "lower_char c =
     (let n = of_char c :: nat
      in if (65 \<le> n \<and> n \<le> 90) \<or> (192 \<le> n \<and> n \<le> 222 \<and> n \<noteq> 215) then char_of (n + 32) else c)"

definition str_lower :: "string \<Rightarrow> string" where
  "str_lower s = map lower_char s"

definition is_ascii_digit :: "char \<Rightarrow> bool" where
  "is_ascii_digit c = (48 \<le> (of_char c :: nat) \<and> (of_char c :: nat) \<le> 57)"

definition is_digit_char :: "char \<Rightarrow> bool" where
  "is_digit_char c = (is_ascii_digit c \<or> of_char c \<in> set [178, 179, 185 :: nat])"

definition str_isdigit :: "string \<Rightarrow> bool" where
  "str_isdigit s = (s \<noteq> [] \<and> list_all is_digit_char s)"

definition py_int :: "string \<Rightarrow> py_error + int" where
  "py_int s =
     (if s \<noteq> [] \<and> list_all is_ascii_digit s
      then Inr (foldl (\<lambda>acc c. acc * 10 + (of_char c - 48)) 0 s)
      else Inl ValueError)"

definition set_override :: "FeatureFlagManager \<Rightarrow> py_str \<Rightarrow> FlagConfig \<Rightarrow> bool \<Rightarrow> int \<Rightarrow> FeatureFlagManager" where
  "set_override self flag_name flag e p =
     self\<lparr>flags := AList.update flag_name (flag\<lparr>enabled := e, rollout_percentage := p\<rparr>) (flags self)\<rparr>"

text \<open>The body of the loop of \<^verbatim>\<open>_load_from_env\<close> for one item of \<^verbatim>\<open>os.environ\<close>.\<close>

definition load_env_var :: "FeatureFlagManager \<Rightarrow> string \<times> string \<Rightarrow> py_error + FeatureFlagManager" where
  "load_env_var self kv =
     (case kv of (key, val) \<Rightarrow>
        if take 3 key \<noteq> ''FF_'' then Inr self
        else (let flag_name = py (str_lower (drop 3 key)) in
              case map_of (flags self) flag_name of
                None \<Rightarrow> Inr self
              | Some flag \<Rightarrow>
                  (let v = str_lower (str_strip val) in
                   if v \<in> set [''true'', ''1'', ''on''] then Inr (set_override self flag_name flag True 100)
                   else if v \<in> set [''false'', ''0'', ''off''] then Inr (set_override self flag_name flag False 0)
                   else if str_isdigit v then
                     (case py_int v of
                        Inl e \<Rightarrow> Inl e
                      | Inr pct \<Rightarrow>
                          if 0 \<le> pct \<and> pct \<le> 100 then Inr (set_override self flag_name flag True pct)
                          else Inr self)
                   else Inr self)))"

text \<open>The loop: an exception of one iteration ends it and leaves the method.\<close>

fun load_from_env :: "FeatureFlagManager \<Rightarrow> (string \<times> string) list \<Rightarrow> py_error + FeatureFlagManager" where
  "load_from_env self [] = Inr self"
| "load_from_env self (kv # environ) =
     (case load_env_var self kv of
        Inl e \<Rightarrow> Inl e
      | Inr self' \<Rightarrow> load_from_env self' environ)"

subsection \<open>Loading from a file\<close>

text \<open>
  A configuration document maps a flag name to the fields it sets. The model covers the
  documents whose fields are attributes of \<^verbatim>\<open>FlagConfig\<close> other than \<^verbatim>\<open>name\<close>, with values
  of the annotated types; on these neither \<^verbatim>\<open>setattr\<close> nor the constructor raises.
\<close>

datatype field =
    F_enabled bool
  | F_rollout_percentage int
  | F_target_users "py_str list"
  | F_target_segments "py_str list"
  | F_variant "py_str option"
  | F_description py_str

fun setattr :: "FlagConfig \<Rightarrow> field \<Rightarrow> FlagConfig" where
  "setattr fc (F_enabled b) = fc\<lparr>enabled := b\<rparr>"
| "setattr fc (F_rollout_percentage p) = fc\<lparr>rollout_percentage := p\<rparr>"
| "setattr fc (F_target_users us) = fc\<lparr>target_users := us\<rparr>"
| "setattr fc (F_target_segments ss) = fc\<lparr>target_segments := ss\<rparr>"
| "setattr fc (F_variant v) = fc\<lparr>variant := v\<rparr>"
| "setattr fc (F_description d) = fc\<lparr>description := d\<rparr>"

definition load_file_item :: "FeatureFlagManager \<Rightarrow> py_str \<times> field list \<Rightarrow> FeatureFlagManager" where
  "load_file_item self item =
     (case item of (n, data) \<Rightarrow>
        (case map_of (flags self) n of
           Some flag \<Rightarrow> self\<lparr>flags := AList.update n (foldl setattr flag data) (flags self)\<rparr>
         | None \<Rightarrow> self\<lparr>flags := AList.update n (foldl setattr (mk_flag n False 0 None []) data) (flags self)\<rparr>))"

definition load_from_file :: "FeatureFlagManager \<Rightarrow> (py_str \<times> field list) list \<Rightarrow> FeatureFlagManager" where
  "load_from_file self config = foldl load_file_item self config"

subsection \<open>Construction\<close>

text \<open>
  \<^verbatim>\<open>__init__\<close>: \<open>config\<close> is the parsed document when \<^verbatim>\<open>config_path\<close> names an existing
  file, \<open>environ\<close> the items of \<^verbatim>\<open>os.environ\<close>.
\<close>

definition init :: "(py_str \<times> field list) list option \<Rightarrow> (string \<times> string) list \<Rightarrow> py_error + FeatureFlagManager" where
  "init config environ =
     (let self0 = load_defaults \<lparr>flags = [], audit_log = []\<rparr>;
          self1 = (case config of None \<Rightarrow> self0 | Some c \<Rightarrow> load_from_file self0 c)
      in load_from_env self1 environ)"

text \<open>A run of calls of \<^verbatim>\<open>_log_evaluation\<close>, each with its clock reading and arguments.\<close>

fun record_all ::
  "FeatureFlagManager \<Rightarrow> (py_str \<times> py_str \<times> py_str \<times> bool \<times> py_str) list \<Rightarrow> FeatureFlagManager" where
  "record_all self [] = self"
| "record_all self ((now, flag_name, uid, res, rsn) # calls) =
     record_all (log_evaluation now self flag_name uid res rsn) calls"

definition entry_of :: "py_str \<times> py_str \<times> py_str \<times> bool \<times> py_str \<Rightarrow> audit_entry" where
  "entry_of c = (case c of (now, flag_name, uid, res, rsn) \<Rightarrow>
     \<lparr>a_timestamp = now, a_flag = flag_name, a_user_id = uid, a_result = res, a_reason = rsn\<rparr>)"

text \<open>The invariant of the data model: every stored percentage lies between 0 and 100.\<close>

definition percentages_in_range :: "FeatureFlagManager \<Rightarrow> bool" where
  "percentages_in_range self =
     list_all (\<lambda>kv. 0 \<le> rollout_percentage (snd kv) \<and> rollout_percentage (snd kv) \<le> 100) (flags self)"

text \<open>The manager that \<^verbatim>\<open>FeatureFlagManager()\<close> builds when no variable of the environment starts with \<^verbatim>\<open>FF_\<close>.\<close>

definition fresh :: FeatureFlagManager where
  "fresh = load_defaults \<lparr>flags = [], audit_log = []\<rparr>"

section \<open>Properties\<close>

subsection \<open>Strings and their encoding\<close>

lemma py_eq [simp]: "(py s = py t) = (s = t)"
  by (simp add: py_def inj_map_eq_map inj_on_def)

lemma py_Nil [simp]: "(py s = []) = (s = [])"
  by (simp add: py_def)

lemma py_append: "py (s @ t) = py s @ py t"
  by (simp add: py_def)




lemma hash_user_005: "hash_user (py ''aggressive_capture'') (py ''user_005'') = Inr 29"
  by code_simp

lemma encode_vectors: "encode [0x41, 0xe9, 0x7ff, 0x800, 0x20ac, 0xd7ff, 0xe000, 0xffff, 0x10000, 0x1f600, 0x10ffff]
   = Inr [65, 195,169, 223,191, 224,160,128, 226,130,172, 237,159,191, 238,128,128, 239,191,191, 240,144,128,128, 240,159,152,128, 244,143,191,191]"
  by code_simp

lemma encode_lone_surrogate: "encode [0x41, 0xd800] = Inl UnicodeEncodeError"
  by code_simp

lemma hash_user_astral: "hash_user (py ''agent_tone'') [0x20ac, 0x1f600] = Inr 44"
  by code_simp

lemma hash_user_lone_surrogate: "hash_user (py ''agent_tone'') [0xd800] = Inl UnicodeEncodeError"
  by (simp add: hash_user_def encode_def encodable_def)

subsection \<open>The default registry\<close>

lemma fresh_show_risks:
  "map_of (flags fresh) (py ''show_risks_upfront'') =
     Some (mk_flag (py ''show_risks_upfront'') True 100 None (py ''Include risk analysis in listing details''))"
  by (simp add: fresh_def load_defaults_def mk_flag_def)

lemma fresh_collect_budget:
  "map_of (flags fresh) (py ''collect_budget_upfront'') =
     Some (mk_flag (py ''collect_budget_upfront'') False 0 None
             (py ''Ask about budget/timeline before showing listings''))"
  by (simp add: fresh_def load_defaults_def mk_flag_def)

lemma fresh_aggressive_capture:
  "map_of (flags fresh) (py ''aggressive_capture'') =
     Some (mk_flag (py ''aggressive_capture'') False 0 None
       (py ''Ask for contact info after first listing detail request (vs waiting for explicit interest)''))"
  by (simp add: fresh_def load_defaults_def mk_flag_def)


lemma audit_log_fresh: "audit_log fresh = []"
  by (simp add: fresh_def load_defaults_def)

subsection \<open>What a call leaves of the manager\<close>





subsection \<open>Precedence of the kill switch and of targeting\<close>

text \<open>
  C1. Kill switch, absolute precedence: when the flag's \<open>enabled\<close> field is false,
  \<^verbatim>\<open>is_enabled\<close> returns false for every user id, present or absent, and every context,
  whatever \<open>target_users\<close> and \<open>rollout_percentage\<close> hold.
\<close>

theorem kill_switch_absolute:
  assumes "map_of (flags self) flag_name = Some flag" and "\<not> enabled flag"
  shows "fst (is_enabled now draw self flag_name uid ctx) = Inr False"
  using assms by (simp add: is_enabled_def)

theorem kill_switch_absolute_witness:
  "map_of (flags (update_flag fresh (py ''show_risks_upfront'') (Some False) (Some 100) (Some [py ''u1''])))
       (py ''show_risks_upfront'')
     = Some ((mk_flag (py ''show_risks_upfront'') False 100 None (py ''Include risk analysis in listing details''))
               \<lparr>target_users := [py ''u1'']\<rparr>)
   \<and> \<not> enabled ((mk_flag (py ''show_risks_upfront'') False 100 None (py ''Include risk analysis in listing details''))
               \<lparr>target_users := [py ''u1'']\<rparr>)
   \<and> fst (is_enabled (py ''2026-01-01T00:00:00'') 0
            (update_flag fresh (py ''show_risks_upfront'') (Some False) (Some 100) (Some [py ''u1'']))
            (py ''show_risks_upfront'') (Some (py ''u1'')) None) = Inr False"
proof -
  let ?F = "(mk_flag (py ''show_risks_upfront'') False 100 None (py ''Include risk analysis in listing details''))
               \<lparr>target_users := [py ''u1'']\<rparr>"
  let ?S = "update_flag fresh (py ''show_risks_upfront'') (Some False) (Some 100) (Some [py ''u1''])"
  have a: "map_of (flags ?S) (py ''show_risks_upfront'') = Some ?F"
    by (simp add: update_flag_def fresh_show_risks update_conv' mk_flag_def)
  have b: "\<not> enabled ?F"
    by (simp add: mk_flag_def)
  from kill_switch_absolute [OF a b] a b show ?thesis by blast
qed

text \<open>
  C2. Targeting overrides rollout: when \<open>enabled\<close> is true and a present (non-empty) user id
  is in \<open>target_users\<close>, \<^verbatim>\<open>is_enabled\<close> returns true, whatever \<open>rollout_percentage\<close> is.
\<close>

theorem targeting_overrides_rollout:
  assumes "map_of (flags self) flag_name = Some flag" and "enabled flag"
    and "u \<noteq> []" and "u \<in> set (target_users flag)"
  shows "fst (is_enabled now draw self flag_name (Some u) ctx) = Inr True"
  using assms by (simp add: is_enabled_def)

theorem targeting_overrides_rollout_witness:
  "map_of (flags (update_flag fresh (py ''collect_budget_upfront'') (Some True) (Some 0) (Some [py ''vip_user_1''])))
       (py ''collect_budget_upfront'')
     = Some ((mk_flag (py ''collect_budget_upfront'') True 0 None
                (py ''Ask about budget/timeline before showing listings''))
               \<lparr>target_users := [py ''vip_user_1'']\<rparr>)
   \<and> enabled ((mk_flag (py ''collect_budget_upfront'') True 0 None
                (py ''Ask about budget/timeline before showing listings''))
               \<lparr>target_users := [py ''vip_user_1'']\<rparr>)
   \<and> py ''vip_user_1'' \<noteq> []
   \<and> py ''vip_user_1'' \<in> set (target_users
         ((mk_flag (py ''collect_budget_upfront'') True 0 None
                (py ''Ask about budget/timeline before showing listings''))
               \<lparr>target_users := [py ''vip_user_1'']\<rparr>))
   \<and> fst (is_enabled (py ''2026-01-01T00:00:00'') 0
            (update_flag fresh (py ''collect_budget_upfront'') (Some True) (Some 0) (Some [py ''vip_user_1'']))
            (py ''collect_budget_upfront'') (Some (py ''vip_user_1'')) None) = Inr True"
proof -
  let ?F = "(mk_flag (py ''collect_budget_upfront'') True 0 None
                (py ''Ask about budget/timeline before showing listings''))
               \<lparr>target_users := [py ''vip_user_1'']\<rparr>"
  let ?S = "update_flag fresh (py ''collect_budget_upfront'') (Some True) (Some 0) (Some [py ''vip_user_1''])"
  have a: "map_of (flags ?S) (py ''collect_budget_upfront'') = Some ?F"
    by (simp add: update_flag_def fresh_collect_budget update_conv' mk_flag_def)
  have b: "enabled ?F"
    by (simp add: mk_flag_def)
  have c: "py ''vip_user_1'' \<noteq> []" by simp
  have d: "py ''vip_user_1'' \<in> set (target_users ?F)"
    by (simp add: mk_flag_def)
  from targeting_overrides_rollout [OF a b c d] a b c d show ?thesis by blast
qed

text \<open>
  C10. The empty string as user id is treated as an absent one: the call returns the same
  boolean and the same manager as the call with no user id, so the empty string is not
  matched against \<open>target_users\<close> and no audit record is appended; for a percentage
  strictly between 0 and 100 the boolean is the random draw compared with the percentage.
\<close>

theorem empty_user_id_is_absent:
  "is_enabled now draw self flag_name (Some []) ctx = is_enabled now draw self flag_name None ctx
   \<and> audit_log (snd (is_enabled now draw self flag_name (Some []) ctx)) = audit_log self
   \<and> (map_of (flags self) flag_name = Some flag \<and> enabled flag
        \<and> 0 < rollout_percentage flag \<and> rollout_percentage flag < 100
      \<longrightarrow> fst (is_enabled now draw self flag_name (Some []) ctx) = Inr (draw < rollout_percentage flag))"
  by (auto simp add: is_enabled_def rollout_phase_def split: option.splits)

theorem empty_user_id_is_absent_witness:
  "map_of (flags (update_flag fresh (py ''aggressive_capture'') (Some True) (Some 50) (Some [[]])))
       (py ''aggressive_capture'')
     = Some ((mk_flag (py ''aggressive_capture'') True 50 None
          (py ''Ask for contact info after first listing detail request (vs waiting for explicit interest)''))
               \<lparr>target_users := [[]]\<rparr>)
   \<and> fst (is_enabled (py ''2026-01-01T00:00:00'') 70
            (update_flag fresh (py ''aggressive_capture'') (Some True) (Some 50) (Some [[]]))
            (py ''aggressive_capture'') (Some []) None) = Inr False
   \<and> audit_log (snd (is_enabled (py ''2026-01-01T00:00:00'') 70
            (update_flag fresh (py ''aggressive_capture'') (Some True) (Some 50) (Some [[]]))
            (py ''aggressive_capture'') (Some []) None)) = []"
proof -
  let ?F = "(mk_flag (py ''aggressive_capture'') True 50 None
          (py ''Ask for contact info after first listing detail request (vs waiting for explicit interest)''))
               \<lparr>target_users := [[]]\<rparr>"
  let ?S = "update_flag fresh (py ''aggressive_capture'') (Some True) (Some 50) (Some [[]])"
  have a: "map_of (flags ?S) (py ''aggressive_capture'') = Some ?F"
    by (simp add: update_flag_def fresh_aggressive_capture update_conv' mk_flag_def)
  have b: "enabled ?F \<and> 0 < rollout_percentage ?F \<and> rollout_percentage ?F < 100"
    by (simp add: mk_flag_def)
  have c: "audit_log ?S = []"
    by (simp add: update_flag_def fresh_aggressive_capture audit_log_fresh Let_def)
  note t = empty_user_id_is_absent [of "py ''2026-01-01T00:00:00''" 70 ?S "py ''aggressive_capture''" None ?F]
  from t have t2: "audit_log (snd (is_enabled (py ''2026-01-01T00:00:00'') 70 ?S (py ''aggressive_capture'') (Some []) None))
      = audit_log ?S"
    by blast
  from t a b have t3: "fst (is_enabled (py ''2026-01-01T00:00:00'') 70 ?S (py ''aggressive_capture'') (Some []) None)
      = Inr (70 < rollout_percentage ?F)"
    by blast
  have t4: "\<not> (70 < rollout_percentage ?F)"
    by (simp add: mk_flag_def)
  from a t2 c t3 t4 show ?thesis by simp
qed

subsection \<open>The hash bucket\<close>

lemma hash_user_range: "hash_user flag_name u = Inr h \<Longrightarrow> 0 \<le> h \<and> h < 100"
  by (auto simp add: hash_user_def Let_def split: sum.splits)


lemma is_enabled_partial:
  assumes "map_of (flags self) flag_name = Some flag" and "enabled flag"
    and "rollout_percentage flag \<noteq> 0" and "rollout_percentage flag \<noteq> 100"
    and "u \<noteq> []" and "u \<notin> set (target_users flag)"
  shows "fst (is_enabled now draw self flag_name (Some u) ctx)
           = (case hash_user flag_name u of
                Inl e \<Rightarrow> Inl e
              | Inr h \<Rightarrow> Inr (h < rollout_percentage flag))"
  using assms by (simp add: is_enabled_def rollout_phase_def Let_def split: sum.splits)



text \<open>
  C4. Monotonicity under rollout increase: for an enabled flag and a present (non-empty)
  user id outside \<open>target_users\<close>, if \<^verbatim>\<open>is_enabled\<close> is true at percentage \<open>p1\<close> and
  \<open>p1 < p2 \<le> 100\<close>, it is true once the percentage is \<open>p2\<close> and nothing else has changed.
\<close>

theorem rollout_monotone:
  assumes "map_of (flags self) flag_name = Some flag" and "enabled flag"
    and "u \<noteq> []" and "u \<notin> set (target_users flag)"
    and "rollout_percentage flag = p1" and "p1 < p2" and "p2 \<le> 100"
    and "fst (is_enabled now draw self flag_name (Some u) ctx) = Inr True"
  shows "fst (is_enabled now' draw'
            (self\<lparr>flags := AList.update flag_name (flag\<lparr>rollout_percentage := p2\<rparr>) (flags self)\<rparr>)
            flag_name (Some u) ctx') = Inr True"
proof -
  let ?self' = "self\<lparr>flags := AList.update flag_name (flag\<lparr>rollout_percentage := p2\<rparr>) (flags self)\<rparr>"
  let ?flag' = "flag\<lparr>rollout_percentage := p2\<rparr>"
  have look: "map_of (flags ?self') flag_name = Some ?flag'"
    by (simp add: update_conv')
  have p1: "p1 \<noteq> 0" "p1 \<noteq> 100"
    using assms by (auto simp add: is_enabled_def rollout_phase_def)
  then obtain h where h: "hash_user flag_name u = Inr h" and "h < p1"
    using assms is_enabled_partial [of self flag_name flag u now draw ctx]
    by (auto split: sum.splits)
  with \<open>p1 < p2\<close> have lt: "h < p2" by simp
  with hash_user_range [OF h] have "p2 \<noteq> 0" by auto
  show ?thesis
  proof (cases "p2 = 100")
    case True
    with look assms(2,3,4) show ?thesis
      by (simp add: is_enabled_def rollout_phase_def)
  next
    case False
    with look assms(2,3,4) \<open>p2 \<noteq> 0\<close> lt h
      is_enabled_partial [of ?self' flag_name ?flag' u now' draw' ctx']
    show ?thesis by simp
  qed
qed

theorem rollout_monotone_witness:
  "fst (is_enabled (py ''2026-01-01T00:00:00'') 70
            (update_flag fresh (py ''aggressive_capture'') (Some True) (Some 30) None)
            (py ''aggressive_capture'') (Some (py ''user_005'')) None) = Inr True
   \<and> (30::int) < 60 \<and> (60::int) \<le> 100
   \<and> fst (is_enabled (py ''2026-01-02T00:00:00'') 99
            ((update_flag fresh (py ''aggressive_capture'') (Some True) (Some 30) None)
               \<lparr>flags := AList.update (py ''aggressive_capture'')
                  ((mk_flag (py ''aggressive_capture'') True 30 None
                     (py ''Ask for contact info after first listing detail request (vs waiting for explicit interest)''))
                   \<lparr>rollout_percentage := 60\<rparr>)
                  (flags (update_flag fresh (py ''aggressive_capture'') (Some True) (Some 30) None))\<rparr>)
            (py ''aggressive_capture'') (Some (py ''user_005'')) None) = Inr True"
proof -
  let ?F = "mk_flag (py ''aggressive_capture'') True 30 None
          (py ''Ask for contact info after first listing detail request (vs waiting for explicit interest)'')"
  let ?S = "update_flag fresh (py ''aggressive_capture'') (Some True) (Some 30) None"
  have a: "map_of (flags ?S) (py ''aggressive_capture'') = Some ?F"
    by (simp add: update_flag_def fresh_aggressive_capture update_conv' mk_flag_def)
  have b: "enabled ?F" and d: "py ''user_005'' \<notin> set (target_users ?F)"
    and e: "rollout_percentage ?F = 30"
    by (simp_all add: mk_flag_def)
  have c: "py ''user_005'' \<noteq> []" by simp
  have g: "fst (is_enabled (py ''2026-01-01T00:00:00'') 70 ?S (py ''aggressive_capture'') (Some (py ''user_005'')) None)
             = Inr True"
    using a b c d e hash_user_005
      is_enabled_partial [of ?S "py ''aggressive_capture''" ?F "py ''user_005''" "py ''2026-01-01T00:00:00''" 70 None]
    by simp
  have f: "(30::int) < 60" and h: "(60::int) \<le> 100" by simp_all
  from rollout_monotone [OF a b c d e f h g, of "py ''2026-01-02T00:00:00''" 99 None] g f h
  show ?thesis by blast
qed

subsection \<open>Variants\<close>





subsection \<open>The audit log\<close>

lemma audit_log_log_evaluation:
  "audit_log (log_evaluation now self flag_name uid res rsn) =
     drop (length (audit_log self) + 1 - 1000) (audit_log self @ [entry_of (now, flag_name, uid, res, rsn)])"
  by (simp add: log_evaluation_def entry_of_def Let_def)

lemma length_log_evaluation:
  "length (audit_log self) \<le> 1000 \<Longrightarrow> length (audit_log (log_evaluation now self flag_name uid res rsn)) \<le> 1000"
  by (simp add: audit_log_log_evaluation)

lemma audit_log_record_all:
  "length (audit_log self) \<le> 1000 \<Longrightarrow>
     audit_log (record_all self calls) =
       drop (length (audit_log self) + length calls - 1000) (audit_log self @ map entry_of calls)"
proof (induction calls arbitrary: self)
  case Nil
  then show ?case by simp
next
  case (Cons c calls)
  obtain now flag_name uid res rsn where c: "c = (now, flag_name, uid, res, rsn)"
    by (cases c) auto
  let ?self' = "log_evaluation now self flag_name uid res rsn"
  have le: "length (audit_log ?self') \<le> 1000"
    using Cons.prems by (rule length_log_evaluation)
  have step: "audit_log (record_all self (c # calls)) =
      drop (length (audit_log ?self') + length calls - 1000) (audit_log ?self' @ map entry_of calls)"
    using Cons.IH [OF le] c by simp
  show ?case
  proof (cases "length (audit_log self) = 1000")
    case True
    then have eq: "audit_log ?self' = drop 1 (audit_log self @ [entry_of c])"
      by (simp add: audit_log_log_evaluation c)
    have len: "length (drop 1 (audit_log self @ [entry_of c])) = 1000"
      using True by simp
    from True have "audit_log self \<noteq> []" by auto
    then have A: "drop 1 (audit_log self @ [entry_of c]) @ map entry_of calls
        = drop 1 (audit_log self @ entry_of c # map entry_of calls)"
      by (cases "audit_log self") simp_all
    from step have "audit_log (record_all self (c # calls))
        = drop (1000 + length calls - 1000) (drop 1 (audit_log self @ [entry_of c]) @ map entry_of calls)"
      by (simp only: eq len)
    also have "\<dots> = drop (length calls) (drop 1 (audit_log self @ entry_of c # map entry_of calls))"
      by (simp only: A diff_add_inverse)
    also have "\<dots> = drop (length calls + 1) (audit_log self @ entry_of c # map entry_of calls)"
      by (simp only: drop_drop)
    also have "\<dots> = drop (length (audit_log self) + length (c # calls) - 1000)
        (audit_log self @ map entry_of (c # calls))"
      using True by simp
    finally show ?thesis .
  next
    case False
    with Cons.prems have "audit_log ?self' = audit_log self @ [entry_of c]"
      by (simp add: audit_log_log_evaluation c)
    with step show ?thesis by simp
  qed
qed

lemma audit_log_rollout_phase:
  "length (audit_log self) \<le> 1000 \<Longrightarrow>
     length (audit_log (snd (rollout_phase now draw self flag_name flag uid))) \<le> 1000"
  by (simp add: rollout_phase_def Let_def length_log_evaluation split: option.splits sum.splits)

lemma length_audit_log_is_enabled:
  "length (audit_log self) \<le> 1000 \<Longrightarrow>
     length (audit_log (snd (is_enabled now draw self flag_name uid ctx))) \<le> 1000"
  by (simp add: is_enabled_def audit_log_rollout_phase length_log_evaluation split: option.splits)

text \<open>
  C5. Audit log cap with FIFO eviction: from a log of at most 1000 entries (the empty log
  of a new manager is one), the log holds at most 1000 entries after any run of recorded
  evaluations and after any call of \<^verbatim>\<open>is_enabled\<close>; \<^verbatim>\<open>export_audit_log\<close> returns the last
  1000 of all records in the order they were made, oldest first, so exactly 1000 once more
  than 1000 exist.
\<close>

theorem audit_log_cap:
  assumes "length (audit_log self) \<le> 1000"
  shows "length (export_audit_log (record_all self calls)) \<le> 1000
       \<and> export_audit_log (record_all self calls)
           = drop (length (audit_log self @ map entry_of calls) - 1000) (audit_log self @ map entry_of calls)
       \<and> (1000 < length (audit_log self) + length calls
            \<longrightarrow> length (export_audit_log (record_all self calls)) = 1000)
       \<and> length (audit_log (snd (is_enabled now draw self flag_name uid ctx))) \<le> 1000"
proof -
  let ?L = "audit_log self @ map entry_of calls"
  have e: "export_audit_log (record_all self calls) = drop (length ?L - 1000) ?L"
    using assms by (simp add: export_audit_log_def audit_log_record_all)
  have l1: "length (drop (length ?L - 1000) ?L) \<le> 1000"
    by (simp only: length_drop)
  have l2: "1000 < length (audit_log self) + length calls \<longrightarrow> length (drop (length ?L - 1000) ?L) = 1000"
  proof
    assume "1000 < length (audit_log self) + length calls"
    then have "1000 < length ?L" by simp
    then show "length (drop (length ?L - 1000) ?L) = 1000"
      by (simp only: length_drop)
  qed
  from l1 l2 length_audit_log_is_enabled [OF assms, of now draw flag_name uid ctx]
  show ?thesis unfolding e by blast
qed

theorem audit_log_cap_witness:
  "length (audit_log fresh) \<le> 1000
   \<and> export_audit_log (record_all fresh
        (replicate 1500 (py ''2026-01-01T00:00:00'', py ''agent_tone'', py ''u1'', True, py ''targeted_user'')))
      = replicate 1000 (entry_of (py ''2026-01-01T00:00:00'', py ''agent_tone'', py ''u1'', True, py ''targeted_user''))
   \<and> export_audit_log (record_all fresh
        [(py ''t1'', py ''agent_tone'', py ''u1'', True, py ''targeted_user''),
         (py ''t2'', py ''agent_tone'', py ''u2'', False, py ''rollout_50%'')])
      = [entry_of (py ''t1'', py ''agent_tone'', py ''u1'', True, py ''targeted_user''),
         entry_of (py ''t2'', py ''agent_tone'', py ''u2'', False, py ''rollout_50%'')]"
proof -
  have a: "length (audit_log fresh) \<le> 1000"
    by (simp add: audit_log_fresh)
  have b: "drop 500 (replicate 1500 x) = replicate 1000 x" for x :: audit_entry
    by simp
  from audit_log_cap [OF a, of "replicate 1500 (py ''2026-01-01T00:00:00'', py ''agent_tone'', py ''u1'', True, py ''targeted_user'')"]
  have c: "export_audit_log (record_all fresh
        (replicate 1500 (py ''2026-01-01T00:00:00'', py ''agent_tone'', py ''u1'', True, py ''targeted_user'')))
      = replicate 1000 (entry_of (py ''2026-01-01T00:00:00'', py ''agent_tone'', py ''u1'', True, py ''targeted_user''))"
    by (simp add: audit_log_fresh b)
  from audit_log_cap [OF a, of "[(py ''t1'', py ''agent_tone'', py ''u1'', True, py ''targeted_user''),
         (py ''t2'', py ''agent_tone'', py ''u2'', False, py ''rollout_50%'')]"]
  have d: "export_audit_log (record_all fresh
        [(py ''t1'', py ''agent_tone'', py ''u1'', True, py ''targeted_user''),
         (py ''t2'', py ''agent_tone'', py ''u2'', False, py ''rollout_50%'')])
      = [entry_of (py ''t1'', py ''agent_tone'', py ''u1'', True, py ''targeted_user''),
         entry_of (py ''t2'', py ''agent_tone'', py ''u2'', False, py ''rollout_50%'')]"
    by (simp add: audit_log_fresh)
  from a c d show ?thesis by blast
qed

lemma str_int_50: "str_int 50 = ''50''"
  by code_simp

text \<open>
  C6, as the code has it. For a known flag and a present (non-empty) user id, \<^verbatim>\<open>is_enabled\<close>
  appends exactly one audit record when \<open>enabled\<close> is true and either the user id is in
  \<open>target_users\<close> (reason \<^verbatim>\<open>targeted_user\<close>) or the percentage is neither 0 nor 100 and the
  bucket is computed (reason \<^verbatim>\<open>rollout_N%\<close>); the record is put last and the oldest one
  leaves a full log. It appends none when \<open>enabled\<close> is false, when an untargeted user
  meets a percentage of 0 or 100, for an absent or empty user id, or for an unknown flag.
\<close>

theorem audit_records_exact:
  "(map_of (flags self) flag_name = None
      \<longrightarrow> audit_log (snd (is_enabled now draw self flag_name uid ctx)) = audit_log self)
   \<and> (\<not> truthy uid
      \<longrightarrow> audit_log (snd (is_enabled now draw self flag_name uid ctx)) = audit_log self)
   \<and> (map_of (flags self) flag_name = Some flag \<and> u \<noteq> [] \<longrightarrow>
        audit_log (snd (is_enabled now draw self flag_name (Some u) ctx)) =
          (if \<not> enabled flag then audit_log self
           else if u \<in> set (target_users flag)
             then drop (length (audit_log self) + 1 - 1000)
                    (audit_log self @ [entry_of (now, flag_name, u, True, py ''targeted_user'')])
           else if rollout_percentage flag = 100 \<or> rollout_percentage flag = 0 then audit_log self
           else (case hash_user flag_name u of
                   Inl e \<Rightarrow> audit_log self
                 | Inr h \<Rightarrow>
                     drop (length (audit_log self) + 1 - 1000)
                       (audit_log self @
                          [entry_of (now, flag_name, u, h < rollout_percentage flag,
                             py ''rollout_'' @ py (str_int (rollout_percentage flag)) @ py ''%'')]))))"
proof -
  have a: "map_of (flags self) flag_name = None
      \<longrightarrow> audit_log (snd (is_enabled now draw self flag_name uid ctx)) = audit_log self"
    by (simp add: is_enabled_def)
  have b: "\<not> truthy uid
      \<longrightarrow> audit_log (snd (is_enabled now draw self flag_name uid ctx)) = audit_log self"
    by (cases uid) (auto simp add: is_enabled_def rollout_phase_def split: option.splits)
  have c: "map_of (flags self) flag_name = Some flag \<and> u \<noteq> [] \<longrightarrow>
        audit_log (snd (is_enabled now draw self flag_name (Some u) ctx)) =
          (if \<not> enabled flag then audit_log self
           else if u \<in> set (target_users flag)
             then drop (length (audit_log self) + 1 - 1000)
                    (audit_log self @ [entry_of (now, flag_name, u, True, py ''targeted_user'')])
           else if rollout_percentage flag = 100 \<or> rollout_percentage flag = 0 then audit_log self
           else (case hash_user flag_name u of
                   Inl e \<Rightarrow> audit_log self
                 | Inr h \<Rightarrow>
                     drop (length (audit_log self) + 1 - 1000)
                       (audit_log self @
                          [entry_of (now, flag_name, u, h < rollout_percentage flag,
                             py ''rollout_'' @ py (str_int (rollout_percentage flag)) @ py ''%'')])))"
    by (auto simp add: is_enabled_def rollout_phase_def Let_def audit_log_log_evaluation
          simp del: drop_append split: sum.splits)
  from a b c show ?thesis by blast
qed

theorem audit_records_exact_witness:
  "map_of (flags (update_flag fresh (py ''aggressive_capture'') (Some True) (Some 50) None))
       (py ''aggressive_capture'')
     = Some (mk_flag (py ''aggressive_capture'') True 50 None
          (py ''Ask for contact info after first listing detail request (vs waiting for explicit interest)''))
   \<and> py ''user_005'' \<noteq> []
   \<and> audit_log (snd (is_enabled (py ''2026-01-01T00:00:00'') 70
            (update_flag fresh (py ''aggressive_capture'') (Some True) (Some 50) None)
            (py ''aggressive_capture'') (Some (py ''user_005'')) None))
       = [\<lparr>a_timestamp = py ''2026-01-01T00:00:00'', a_flag = py ''aggressive_capture'',
           a_user_id = py ''user_005'', a_result = True, a_reason = py ''rollout_50%''\<rparr>]
   \<and> map_of (flags fresh) (py ''no_such_flag'') = None
   \<and> audit_log (snd (is_enabled (py ''2026-01-01T00:00:00'') 70 fresh (py ''no_such_flag'')
            (Some (py ''user_005'')) None)) = []
   \<and> \<not> truthy None
   \<and> audit_log (snd (is_enabled (py ''2026-01-01T00:00:00'') 70
            (update_flag fresh (py ''aggressive_capture'') (Some True) (Some 50) None)
            (py ''aggressive_capture'') None None)) = []"
proof -
  let ?F = "mk_flag (py ''aggressive_capture'') True 50 None
          (py ''Ask for contact info after first listing detail request (vs waiting for explicit interest)'')"
  let ?S = "update_flag fresh (py ''aggressive_capture'') (Some True) (Some 50) None"
  let ?now = "py ''2026-01-01T00:00:00''"
  have a: "map_of (flags ?S) (py ''aggressive_capture'') = Some ?F"
    by (simp add: update_flag_def fresh_aggressive_capture update_conv' mk_flag_def)
  have b: "py ''user_005'' \<noteq> []" by simp
  have l: "audit_log ?S = []"
    by (simp add: update_flag_def fresh_aggressive_capture audit_log_fresh Let_def)
  have n: "map_of (flags fresh) (py ''no_such_flag'') = None"
    by (simp add: fresh_def load_defaults_def mk_flag_def)
  have t: "\<not> truthy None" by simp
  note th = audit_records_exact [of ?S "py ''aggressive_capture''" ?now 70 "Some (py ''user_005'')" None ?F
      "py ''user_005''"]
  from th a b have "audit_log (snd (is_enabled ?now 70 ?S (py ''aggressive_capture'') (Some (py ''user_005'')) None))
      = (if \<not> enabled ?F then audit_log ?S
           else if py ''user_005'' \<in> set (target_users ?F)
             then drop (length (audit_log ?S) + 1 - 1000)
                    (audit_log ?S @ [entry_of (?now, py ''aggressive_capture'', py ''user_005'', True, py ''targeted_user'')])
           else if rollout_percentage ?F = 100 \<or> rollout_percentage ?F = 0 then audit_log ?S
           else (case hash_user (py ''aggressive_capture'') (py ''user_005'') of
                   Inl e \<Rightarrow> audit_log ?S
                 | Inr h \<Rightarrow>
                     drop (length (audit_log ?S) + 1 - 1000)
                       (audit_log ?S @
                          [entry_of (?now, py ''aggressive_capture'', py ''user_005'', h < rollout_percentage ?F,
                             py ''rollout_'' @ py (str_int (rollout_percentage ?F)) @ py ''%'')])))"
    by blast
  then have c: "audit_log (snd (is_enabled ?now 70 ?S (py ''aggressive_capture'') (Some (py ''user_005'')) None))
       = [\<lparr>a_timestamp = ?now, a_flag = py ''aggressive_capture'',
           a_user_id = py ''user_005'', a_result = True, a_reason = py ''rollout_50%''\<rparr>]"
    by (simp add: l hash_user_005 mk_flag_def entry_of_def str_int_50 py_append [symmetric])
  from audit_records_exact [of fresh "py ''no_such_flag''" ?now 70 "Some (py ''user_005'')" None ?F "py ''user_005''"] n
  have d: "audit_log (snd (is_enabled ?now 70 fresh (py ''no_such_flag'') (Some (py ''user_005'')) None)) = []"
    by (simp add: audit_log_fresh)
  from audit_records_exact [of ?S "py ''aggressive_capture''" ?now 70 None None ?F "py ''user_005''"] t l
  have e: "audit_log (snd (is_enabled ?now 70 ?S (py ''aggressive_capture'') None None)) = []"
    by simp
  from a b c n d t e show ?thesis by blast
qed

theorem audit_completeness_counterexample:
  "map_of (flags fresh) (py ''aggressive_capture'') \<noteq> None
   \<and> truthy (Some (py ''u1''))
   \<and> audit_log (snd (is_enabled (py ''2026-01-01T00:00:00'') 0 fresh (py ''aggressive_capture'')
        (Some (py ''u1'')) None)) = audit_log fresh
   \<and> map_of (flags fresh) (py ''show_risks_upfront'') \<noteq> None
   \<and> audit_log (snd (is_enabled (py ''2026-01-01T00:00:00'') 0 fresh (py ''show_risks_upfront'')
        (Some (py ''u1'')) None)) = audit_log fresh"
  by (simp add: is_enabled_def rollout_phase_def fresh_aggressive_capture fresh_show_risks mk_flag_def)

subsection \<open>Loading and updating\<close>

lemma list_all_update:
  "list_all P al \<Longrightarrow> P (k, v) \<Longrightarrow> list_all P (AList.update k v al)"
  by (induction al) auto

lemma percentages_in_range_lookup:
  "percentages_in_range self \<Longrightarrow> map_of (flags self) flag_name = Some flag
     \<Longrightarrow> 0 \<le> rollout_percentage flag \<and> rollout_percentage flag \<le> 100"
proof -
  assume inv: "percentages_in_range self" and look: "map_of (flags self) flag_name = Some flag"
  from look have "(flag_name, flag) \<in> set (flags self)"
    by (rule map_of_SomeD)
  with inv show ?thesis
    by (fastforce simp add: percentages_in_range_def list_all_iff)
qed

lemma percentages_in_range_store:
  "percentages_in_range self \<Longrightarrow> 0 \<le> rollout_percentage flag \<Longrightarrow> rollout_percentage flag \<le> 100
     \<Longrightarrow> percentages_in_range (self\<lparr>flags := AList.update flag_name flag (flags self)\<rparr>)"
  by (simp add: percentages_in_range_def list_all_update)

lemma percentages_in_range_fresh: "percentages_in_range fresh"
  by (simp add: percentages_in_range_def fresh_def load_defaults_def mk_flag_def)

lemma percentages_in_range_update_flag:
  assumes "percentages_in_range self"
  shows "percentages_in_range (update_flag self flag_name en pct users)"
proof (cases "map_of (flags self) flag_name")
  case None
  with assms show ?thesis by (simp add: update_flag_def)
next
  case (Some flag)
  from percentages_in_range_lookup [OF assms Some]
  show ?thesis
    unfolding update_flag_def Let_def using Some assms
    by (auto intro!: percentages_in_range_store split: option.splits)
qed

lemma percentages_in_range_load_env_var:
  assumes "percentages_in_range self" and "load_env_var self kv = Inr self'"
  shows "percentages_in_range self'"
proof -
  obtain key val where kv: "kv = (key, val)" by (cases kv)
  show ?thesis
    using assms unfolding kv load_env_var_def Let_def set_override_def
    by (auto intro!: percentages_in_range_store split: if_splits option.splits sum.splits)
qed

lemma percentages_in_range_load_from_env:
  "percentages_in_range self \<Longrightarrow> load_from_env self environ = Inr self' \<Longrightarrow> percentages_in_range self'"
proof (induction environ arbitrary: self)
  case Nil
  then show ?case by simp
next
  case (Cons kv environ)
  then show ?case
    by (auto split: sum.splits dest: percentages_in_range_load_env_var)
qed

lemma update_flag_clamps:
  "map_of (flags self) flag_name = Some flag \<Longrightarrow>
     \<exists>flag'. map_of (flags (update_flag self flag_name en (Some p) users)) flag_name = Some flag'
        \<and> rollout_percentage flag' = max 0 (min 100 p)"
  by (simp add: update_flag_def Let_def update_conv' split: option.splits)

lemma env_out_of_range_ignored:
  assumes "str_isdigit (str_lower (str_strip val))"
    and "py_int (str_lower (str_strip val)) = Inr pct" and "pct < 0 \<or> 100 < pct"
  shows "load_env_var self (key, val) = Inr self"
proof -
  have "str_lower (str_strip val) \<notin> set [''true'', ''1'', ''on'']"
    and "str_lower (str_strip val) \<notin> set [''false'', ''0'', ''off'']"
    using assms(2,3) by (auto simp add: py_int_def is_ascii_digit_def)
  with assms show ?thesis
    by (auto simp add: load_env_var_def Let_def split: option.splits)
qed

lemma env_key_aggressive_capture:
  "str_lower (drop 3 ''FF_AGGRESSIVE_CAPTURE'') = ''aggressive_capture''"
  "str_lower ''AGGRESSIVE_CAPTURE'' = ''aggressive_capture''"
  by code_simp+

lemma env_value_150:
  "str_lower (str_strip ''150'') = ''150''" "str_isdigit ''150''" "py_int ''150'' = Inr 150"
  by code_simp+

lemma env_value_superscript:
  "str_lower (str_strip [CHR 0xB2]) = [CHR 0xB2]" "str_isdigit [CHR 0xB2]" "py_int [CHR 0xB2] = Inl ValueError"
  by code_simp+


lemma load_env_var_150:
  "load_env_var fresh (''FF_AGGRESSIVE_CAPTURE'', ''150'') = Inr fresh"
  by (rule env_out_of_range_ignored [where pct = 150]) (simp_all add: env_value_150)

text \<open>
  A percentage out of range in a configuration document is stored as it is: \<^verbatim>\<open>setattr\<close>
  does not clamp, unlike \<^verbatim>\<open>update_flag\<close>.
\<close>

lemma load_from_file_stores_as_is:
  "map_of (flags (load_from_file fresh [(py ''aggressive_capture'', [F_enabled True, F_rollout_percentage 150])]))
       (py ''aggressive_capture'')
     = Some (mk_flag (py ''aggressive_capture'') True 150 None
          (py ''Ask for contact info after first listing detail request (vs waiting for explicit interest)''))"
  by (simp add: load_from_file_def load_file_item_def fresh_aggressive_capture update_conv' mk_flag_def)

text \<open>
  C7, as the code has it. Every percentage of the registry lies in \<open>[0, 100]\<close> after
  \<^verbatim>\<open>load_defaults\<close> and after the construction of a manager without a configuration file,
  and \<^verbatim>\<open>_load_from_env\<close> and \<^verbatim>\<open>update_flag\<close> keep it so. \<^verbatim>\<open>update_flag\<close> clamps the percentage
  it is given into \<open>[0, 100]\<close>. \<^verbatim>\<open>_load_from_env\<close> does not clamp: a digit string whose value
  is out of range is ignored and the manager stays as it was.
\<close>

theorem percentage_range_invariant:
  "percentages_in_range (load_defaults \<lparr>flags = [], audit_log = []\<rparr>)
   \<and> (init None environ = Inr self' \<longrightarrow> percentages_in_range self')
   \<and> (percentages_in_range self \<longrightarrow> percentages_in_range (update_flag self flag_name en pct users))
   \<and> (map_of (flags self) flag_name = Some flag \<longrightarrow>
        (\<exists>flag'. map_of (flags (update_flag self flag_name en (Some p) users)) flag_name = Some flag'
           \<and> rollout_percentage flag' = max 0 (min 100 p)))
   \<and> (percentages_in_range self \<and> load_from_env self environ = Inr self' \<longrightarrow> percentages_in_range self')
   \<and> (str_isdigit (str_lower (str_strip val)) \<and> py_int (str_lower (str_strip val)) = Inr v
        \<and> (v < 0 \<or> 100 < v) \<longrightarrow> load_env_var self (key, val) = Inr self)"
proof -
  have a: "percentages_in_range (load_defaults \<lparr>flags = [], audit_log = []\<rparr>)"
    using percentages_in_range_fresh by (simp add: fresh_def)
  have b: "init None environ = Inr self' \<longrightarrow> percentages_in_range self'"
    using percentages_in_range_load_from_env [OF a, of environ self']
    by (simp add: init_def Let_def)
  have c: "percentages_in_range self \<longrightarrow> percentages_in_range (update_flag self flag_name en pct users)"
    by (simp add: percentages_in_range_update_flag)
  have d: "map_of (flags self) flag_name = Some flag \<longrightarrow>
        (\<exists>flag'. map_of (flags (update_flag self flag_name en (Some p) users)) flag_name = Some flag'
           \<and> rollout_percentage flag' = max 0 (min 100 p))"
    using update_flag_clamps by blast
  have e: "percentages_in_range self \<and> load_from_env self environ = Inr self' \<longrightarrow> percentages_in_range self'"
    using percentages_in_range_load_from_env by blast
  have f: "str_isdigit (str_lower (str_strip val)) \<and> py_int (str_lower (str_strip val)) = Inr v
        \<and> (v < 0 \<or> 100 < v) \<longrightarrow> load_env_var self (key, val) = Inr self"
    using env_out_of_range_ignored by blast
  from a b c d e f show ?thesis by blast
qed

theorem percentage_range_invariant_witness:
  "percentages_in_range fresh
   \<and> init None [(''FF_AGGRESSIVE_CAPTURE'', ''150'')] = Inr fresh
   \<and> percentages_in_range (update_flag fresh (py ''aggressive_capture'') (Some True) (Some 150) None)
   \<and> map_of (flags (update_flag fresh (py ''aggressive_capture'') (Some True) (Some 150) None))
        (py ''aggressive_capture'')
      = Some (mk_flag (py ''aggressive_capture'') True 100 None
          (py ''Ask for contact info after first listing detail request (vs waiting for explicit interest)''))
   \<and> map_of (flags (update_flag fresh (py ''aggressive_capture'') (Some True) (Some (- 5)) None))
        (py ''aggressive_capture'')
      = Some (mk_flag (py ''aggressive_capture'') True 0 None
          (py ''Ask for contact info after first listing detail request (vs waiting for explicit interest)''))
   \<and> str_isdigit (str_lower (str_strip ''150'')) \<and> py_int (str_lower (str_strip ''150'')) = Inr 150
   \<and> load_env_var fresh (''FF_AGGRESSIVE_CAPTURE'', ''150'') = Inr fresh"
proof -
  note th = percentage_range_invariant [of "[(''FF_AGGRESSIVE_CAPTURE'', ''150'')]" fresh fresh
      "py ''aggressive_capture''" "Some True" "Some 150" None
      "mk_flag (py ''aggressive_capture'') False 0 None
          (py ''Ask for contact info after first listing detail request (vs waiting for explicit interest)'')"
      150 "''150''" 150 "''FF_AGGRESSIVE_CAPTURE''"]
  have a: "percentages_in_range fresh"
    using th by (simp add: fresh_def)
  have digits: "str_isdigit (str_lower (str_strip ''150''))" "py_int (str_lower (str_strip ''150'')) = Inr 150"
    by (simp_all add: env_value_150)
  from th digits have g: "load_env_var fresh (''FF_AGGRESSIVE_CAPTURE'', ''150'') = Inr fresh"
    by simp
  then have b: "init None [(''FF_AGGRESSIVE_CAPTURE'', ''150'')] = Inr fresh"
    by (simp add: init_def Let_def fresh_def)
  from th a have c: "percentages_in_range (update_flag fresh (py ''aggressive_capture'') (Some True) (Some 150) None)"
    by blast
  have d: "map_of (flags (update_flag fresh (py ''aggressive_capture'') (Some True) (Some 150) None))
        (py ''aggressive_capture'')
      = Some (mk_flag (py ''aggressive_capture'') True 100 None
          (py ''Ask for contact info after first listing detail request (vs waiting for explicit interest)''))"
    by (simp add: update_flag_def fresh_aggressive_capture update_conv' mk_flag_def)
  have e: "map_of (flags (update_flag fresh (py ''aggressive_capture'') (Some True) (Some (- 5)) None))
        (py ''aggressive_capture'')
      = Some (mk_flag (py ''aggressive_capture'') True 0 None
          (py ''Ask for contact info after first listing detail request (vs waiting for explicit interest)''))"
    by (simp add: update_flag_def fresh_aggressive_capture update_conv' mk_flag_def)
  from a b c d e digits g show ?thesis by blast
qed

theorem percentage_clamp_counterexample:
  "load_from_env fresh [(''FF_AGGRESSIVE_CAPTURE'', ''150'')] = Inr fresh
   \<and> map_of (flags fresh) (py ''aggressive_capture'')
      = Some (mk_flag (py ''aggressive_capture'') False 0 None
          (py ''Ask for contact info after first listing detail request (vs waiting for explicit interest)''))"
  by (simp add: load_env_var_150 fresh_aggressive_capture)

text \<open>
  C8 at the value that is the one code point U+00B2 (superscript two): \<^verbatim>\<open>isdigit()\<close> holds, \<^verbatim>\<open>int()\<close> raises
  \<^verbatim>\<open>ValueError\<close>, and the exception leaves \<^verbatim>\<open>_load_from_env\<close> and the constructor, where the
  claim has the value ignored and the flag unchanged.
\<close>

theorem env_superscript_digit_raises:
  "load_env_var fresh (''FF_AGGRESSIVE_CAPTURE'', [CHR 0xB2]) = Inl ValueError
   \<and> init None [(''FF_AGGRESSIVE_CAPTURE'', [CHR 0xB2])] = Inl ValueError"
proof -
  have a: "load_env_var fresh (''FF_AGGRESSIVE_CAPTURE'', [CHR 0xB2]) = Inl ValueError"
    by (simp add: load_env_var_def Let_def env_key_aggressive_capture fresh_aggressive_capture
          env_value_superscript)
  then show ?thesis
    by (simp add: init_def Let_def fresh_def)
qed

text \<open>
  The mapping of C8 on every value that \<^verbatim>\<open>int()\<close> accepts once \<^verbatim>\<open>isdigit()\<close> holds, the four
  cases taken in the order of the code; \<open>v\<close> is the stripped, lowercased value.
\<close>

lemma load_env_var_mapping:
  assumes "take 3 key = ''FF_''" and "map_of (flags self) (py (str_lower (drop 3 key))) = Some flag"
    and "v = str_lower (str_strip val)"
  shows "v \<in> set [''true'', ''1'', ''on''] \<Longrightarrow>
           load_env_var self (key, val) = Inr (set_override self (py (str_lower (drop 3 key))) flag True 100)"
    and "v \<notin> set [''true'', ''1'', ''on''] \<Longrightarrow> v \<in> set [''false'', ''0'', ''off''] \<Longrightarrow>
           load_env_var self (key, val) = Inr (set_override self (py (str_lower (drop 3 key))) flag False 0)"
    and "v \<notin> set [''true'', ''1'', ''on''] \<Longrightarrow> v \<notin> set [''false'', ''0'', ''off''] \<Longrightarrow>
         str_isdigit v \<Longrightarrow> py_int v = Inr pct \<Longrightarrow> 0 \<le> pct \<Longrightarrow> pct \<le> 100 \<Longrightarrow>
           load_env_var self (key, val) = Inr (set_override self (py (str_lower (drop 3 key))) flag True pct)"
    and "v \<notin> set [''true'', ''1'', ''on''] \<Longrightarrow> v \<notin> set [''false'', ''0'', ''off''] \<Longrightarrow>
         \<not> str_isdigit v \<Longrightarrow> load_env_var self (key, val) = Inr self"
  using assms by (simp_all add: load_env_var_def Let_def)

lemma load_env_var_unknown:
  "take 3 key \<noteq> ''FF_'' \<or> map_of (flags self) (py (str_lower (drop 3 key))) = None
     \<Longrightarrow> load_env_var self (key, val) = Inr self"
  by (auto simp add: load_env_var_def Let_def)

end
